theory Spec2Isabelle
  imports Main
begin

section \<open>Python values used by \<^verbatim>\<open>tiktok_sayer.py\<close>\<close>

text \<open>
  A Python \<^verbatim>\<open>str\<close> is a sequence of Unicode code points, so it is modelled as a list of
  natural numbers (HOL's \<open>char\<close> is a byte and cannot hold the Arabic literals of the
  source). \<open>asc\<close> embeds an ASCII literal.
\<close>

type_synonym pystr = "nat list"

definition asc :: "string \<Rightarrow> pystr" where
  "asc s = map of_char s"

datatype pyval = PNone | PStr pystr | PInt int

datatype py_error = ValueError | TypeError | AttributeError | OverflowError

text \<open>Truthiness of a value, as \<^verbatim>\<open>if x:\<close> tests it.\<close>

fun truthy :: "pyval \<Rightarrow> bool" where
  "truthy PNone = False"
| "truthy (PStr s) = (s \<noteq> [])"
| "truthy (PInt n) = (n \<noteq> 0)"

subsection \<open>String methods\<close>

text \<open>
  \<^verbatim>\<open>str.strip()\<close> removes the code points for which \<^verbatim>\<open>str.isspace()\<close> holds from both
  ends.
\<close>

definition is_space :: "nat \<Rightarrow> bool" where
  "is_space c \<longleftrightarrow>
     (9 \<le> c \<and> c \<le> 13) \<or> (28 \<le> c \<and> c \<le> 32) \<or> c = 133 \<or> c = 160 \<or> c = 5760 \<or>
     (8192 \<le> c \<and> c \<le> 8202) \<or> c = 8232 \<or> c = 8233 \<or> c = 8239 \<or> c = 8287 \<or> c = 12288"

definition py_strip :: "pystr \<Rightarrow> pystr" where
  "py_strip s = rev (dropWhile is_space (rev (dropWhile is_space s)))"

text \<open>
  \<^verbatim>\<open>s.replace(c, '')\<close> for a one-character \<^verbatim>\<open>c\<close>.
\<close>

definition remove_char :: "nat \<Rightarrow> pystr \<Rightarrow> pystr" where
  "remove_char c s = filter (\<lambda>x. x \<noteq> c) s"

text \<open>
  \<^verbatim>\<open>str.upper()\<close> and \<^verbatim>\<open>str.lower()\<close>. The source only tests the results for
  containment of ASCII and Arabic keywords and for equality. The ASCII letters are mapped
  as Python maps them; \<^verbatim>\<open>lower()\<close> also sends U+212A (KELVIN SIGN) to \<^verbatim>\<open>k\<close> and U+0130
  to \<^verbatim>\<open>i\<close> followed by U+0307, the only other code points whose image holds an ASCII
  letter, and no code point other than \<^verbatim>\<open>k m b\<close> has \<^verbatim>\<open>K M B\<close> in its upper-case image.
  Every other code point is left as it is; Python's mapping of the remaining cased
  non-ASCII letters is not modelled.
\<close>

definition py_upper :: "pystr \<Rightarrow> pystr" where
  "py_upper s = map (\<lambda>c. if 97 \<le> c \<and> c \<le> 122 then c - 32 else c) s"

definition lower_char :: "nat \<Rightarrow> pystr" where
  "lower_char c =
     (if 65 \<le> c \<and> c \<le> 90 then [c + 32]
      else if c = 8490 then [107]
      else if c = 304 then [105, 775]
      else [c])"

definition py_lower :: "pystr \<Rightarrow> pystr" where
  "py_lower s = concat (map lower_char s)"

text \<open>\<^verbatim>\<open>s.startswith(p)\<close> and the substring test \<^verbatim>\<open>p in s\<close>.\<close>

fun startswith :: "pystr \<Rightarrow> pystr \<Rightarrow> bool" where
  "startswith s [] = True"
| "startswith [] (p # ps) = False"
| "startswith (c # cs) (p # ps) = (c = p \<and> startswith cs ps)"

fun py_in :: "pystr \<Rightarrow> pystr \<Rightarrow> bool" where
  "py_in p [] = (p = [])"
| "py_in p (c # cs) = (startswith (c # cs) p \<or> py_in p cs)"

text \<open>Comparison \<^verbatim>\<open>a > b\<close> of two strings: lexicographic on code points.\<close>

fun str_less :: "pystr \<Rightarrow> pystr \<Rightarrow> bool" where
  "str_less [] [] = False"
| "str_less [] (y # ys) = True"
| "str_less (x # xs) [] = False"
| "str_less (x # xs) (y # ys) = (x < y \<or> (x = y \<and> str_less xs ys))"

subsection \<open>Decimal digits\<close>

text \<open>
  The regular-expression class \<^verbatim>\<open>\d\<close> on a \<^verbatim>\<open>str\<close> pattern matches every code point of
  Unicode category Nd, and \<^verbatim>\<open>float()\<close> reads each of them as its decimal value. The
  category consists of runs of ten code points; \<open>decimal_zeros\<close> lists the zero of each
  run (Unicode 14, the table of Python 3.11).
\<close>

definition decimal_zeros :: "nat list" where
  "decimal_zeros =
     [48, 1632, 1776, 1984, 2406, 2534, 2662, 2790, 2918, 3046, 3174, 3302, 3430, 3558,
      3664, 3792, 3872, 4160, 4240, 6112, 6160, 6470, 6608, 6784, 6800, 6992, 7088, 7232,
      7248, 42528, 43216, 43264, 43472, 43504, 43600, 44016, 65296, 66720, 68912, 69734,
      69872, 69942, 70096, 70384, 70736, 70864, 71248, 71360, 71472, 71904, 72016, 72784,
      73040, 73120, 92768, 92864, 93008, 120782, 120792, 120802, 120812, 120822, 123200,
      123632, 125264, 130032]"

definition digit_value :: "nat \<Rightarrow> nat option" where
  "digit_value c =
     map_option (\<lambda>z. c - z) (find (\<lambda>z. z \<le> c \<and> c < z + 10) decimal_zeros)"

definition is_digit :: "nat \<Rightarrow> bool" where
  "is_digit c \<longleftrightarrow> digit_value c \<noteq> None"

subsection \<open>Floating point\<close>

text \<open>
  A Python \<^verbatim>\<open>float\<close> is an IEEE 754 binary64 number. \<^verbatim>\<open>_parse_count\<close> only builds
  non-negative ones: \<open>Finite m e\<close> stands for \<open>m * 2 ^ e\<close> and \<open>Infinity\<close> for \<^verbatim>\<open>inf\<close>.

  \<open>round_double n d\<close> is the binary64 number nearest to the fraction \<open>n / d\<close> (for
  \<open>d > 0\<close>), ties to even, as \<^verbatim>\<open>float(str)\<close> and the arithmetic operations round:
  \<open>e\<close> is the exponent of the leading bit, not below that of the smallest normal number,
  the result is a multiple of \<open>2 ^ (e - 52)\<close>, and a result of \<open>2 ^ 1024\<close> or more is
  \<^verbatim>\<open>inf\<close>.
\<close>

datatype pyfloat = Finite nat int | Infinity

function nbits :: "nat \<Rightarrow> nat" where
  "nbits n = (if n = 0 then 0 else Suc (nbits (n div 2)))"
  by pat_completeness auto
termination
  by (relation "measure (\<lambda>n. n)") auto

declare nbits.simps [simp del]

text \<open>\<open>ge_pow2 n d k\<close> tests \<open>n / d \<ge> 2 ^ k\<close> for an integer \<open>k\<close> of either sign.\<close>

definition ge_pow2 :: "nat \<Rightarrow> nat \<Rightarrow> int \<Rightarrow> bool" where
  "ge_pow2 n d k \<longleftrightarrow> d * 2 ^ nat k \<le> n * 2 ^ nat (- k)"

definition leading_exponent :: "nat \<Rightarrow> nat \<Rightarrow> int" where
  "leading_exponent n d =
     (let k = int (nbits n) - int (nbits d)
      in if ge_pow2 n d k then k else k - 1)"

definition round_half_even :: "nat \<Rightarrow> nat \<Rightarrow> nat" where
  "round_half_even num den =
     (let q = num div den; r = num mod den
      in if 2 * r < den then q
         else if den < 2 * r then q + 1
         else if even q then q else q + 1)"

definition round_double :: "nat \<Rightarrow> nat \<Rightarrow> pyfloat" where
  "round_double n d =
     (if n = 0 then Finite 0 0
      else
        let e = max (leading_exponent n d) (- 1022);
            p = e - 52;
            m = round_half_even (n * 2 ^ nat (- p)) (d * 2 ^ nat p)
        in if 972 \<le> p \<or> (p = 971 \<and> 2 ^ 53 \<le> m) then Infinity else Finite m p)"

text \<open>
  \<^verbatim>\<open>float(t)\<close> for a token \<^verbatim>\<open>t\<close> of digits and dots, which is all the pattern
  \<^verbatim>\<open>[\d.]+\<close> can hand over: at most one dot and at least one digit, or \<^verbatim>\<open>ValueError\<close>.
\<close>

definition digits_value :: "pystr \<Rightarrow> nat" where
  "digits_value ds =
     foldl (\<lambda>a c. 10 * a + (case digit_value c of Some v \<Rightarrow> v | None \<Rightarrow> 0)) 0 ds"

definition py_float :: "pystr \<Rightarrow> py_error + pyfloat" where
  "py_float t =
     (let ds = remove_char 46 t;
          frac = drop (Suc (length (takeWhile (\<lambda>c. c \<noteq> 46) t))) t
      in if length (filter (\<lambda>c. c = 46) t) \<le> 1 \<and> ds \<noteq> []
         then Inr (round_double (digits_value ds) (10 ^ length frac))
         else Inl ValueError)"

text \<open>
  \<^verbatim>\<open>x * k\<close> for a float \<^verbatim>\<open>x\<close> and an \<^verbatim>\<open>int\<close> \<^verbatim>\<open>k\<close> below \<open>2 ^ 53\<close> (converted
  exactly): the exact product, rounded. \<^verbatim>\<open>int(x)\<close> truncates and raises
  \<^verbatim>\<open>OverflowError\<close> on \<^verbatim>\<open>inf\<close>.
\<close>

fun float_times :: "pyfloat \<Rightarrow> nat \<Rightarrow> pyfloat" where
  "float_times Infinity k = Infinity"
| "float_times (Finite m e) k = round_double (m * k * 2 ^ nat e) (2 ^ nat (- e))"

fun py_int :: "pyfloat \<Rightarrow> py_error + int" where
  "py_int Infinity = Inl OverflowError"
| "py_int (Finite m e) = Inr (int ((m * 2 ^ nat e) div 2 ^ nat (- e)))"

section \<open>CountNormalizer: \<^verbatim>\<open>_parse_count\<close>\<close>

definition arabic_to_english :: "(nat \<times> nat) list" where
  "arabic_to_english =
     [(1632, 48), (1633, 49), (1634, 50), (1635, 51), (1636, 52),
      (1637, 53), (1638, 54), (1639, 55), (1640, 56), (1641, 57)]"

text \<open>
  The loop of one-character \<^verbatim>\<open>replace\<close> calls over the table; no replacement produces a
  key of the table, so the loop is one pass over the string.
\<close>

definition replace_arabic :: "pystr \<Rightarrow> pystr" where
  "replace_arabic s = map (\<lambda>c. case map_of arabic_to_english c of Some e \<Rightarrow> e | None \<Rightarrow> c) s"

definition clean_count :: "pystr \<Rightarrow> pystr" where
  "clean_count count_str = remove_char 32 (remove_char 44 (replace_arabic (py_strip count_str)))"

definition k_markers :: "pystr list" where
  "k_markers = [asc ''K'', asc ''K+'', [1571, 1604, 1601], [1575, 1604, 1601]]"

definition m_markers :: "pystr list" where
  "m_markers = [asc ''M'', asc ''M+'', [1605, 1604, 1610, 1608, 1606]]"

definition b_markers :: "pystr list" where
  "b_markers = [asc ''B'', asc ''B+'', [1605, 1604, 1610, 1575, 1585]]"

definition has_marker :: "pystr list \<Rightarrow> pystr \<Rightarrow> bool" where
  "has_marker ms s = list_ex (\<lambda>k. py_in k (py_upper s)) ms"

text \<open>\<^verbatim>\<open>re.search(r'([\d.]+)', s)\<close>: the first maximal run of digits and dots.\<close>

definition is_num_char :: "nat \<Rightarrow> bool" where
  "is_num_char c \<longleftrightarrow> c = 46 \<or> is_digit c"

definition numeric_part :: "pystr \<Rightarrow> pystr option" where
  "numeric_part s =
     (let r = dropWhile (\<lambda>c. \<not> is_num_char c) s
      in if r = [] then None else Some (takeWhile is_num_char r))"

text \<open>
  \<^verbatim>\<open>int(float(numeric_part.group(1)) * k)\<close>, and \<^verbatim>\<open>int(float(numeric_part.group(1)))\<close>
  of the last branch; \<^verbatim>\<open>return 0\<close> when nothing matches.
\<close>

definition scaled :: "nat \<Rightarrow> pystr \<Rightarrow> py_error + int" where
  "scaled k s =
     (case numeric_part s of
        None \<Rightarrow> Inr 0
      | Some t \<Rightarrow>
          (case py_float t of
             Inl e \<Rightarrow> Inl e
           | Inr x \<Rightarrow> py_int (float_times x k)))"

definition unscaled :: "pystr \<Rightarrow> py_error + int" where
  "unscaled s =
     (case numeric_part s of
        None \<Rightarrow> Inr 0
      | Some t \<Rightarrow>
          (case py_float t of
             Inl e \<Rightarrow> Inl e
           | Inr x \<Rightarrow> py_int x))"

definition parse_count_body :: "pystr \<Rightarrow> py_error + int" where
  "parse_count_body count_str =
     (let s = clean_count count_str
      in if has_marker k_markers s then scaled 1000 s
         else if has_marker m_markers s then scaled 1000000 s
         else if has_marker b_markers s then scaled 1000000000 s
         else unscaled s)"

text \<open>
  The \<^verbatim>\<open>except (ValueError, TypeError, AttributeError)\<close> clause turns these three into
  0; any other exception leaves the function.
\<close>

definition parse_count :: "pystr \<Rightarrow> py_error + int" where
  "parse_count count_str =
     (if count_str = [] then Inr 0
      else
        (case parse_count_body count_str of
           Inl e \<Rightarrow> if e \<in> {ValueError, TypeError, AttributeError} then Inr 0 else Inl e
         | Inr n \<Rightarrow> Inr n))"

section \<open>FieldValidator: \<^verbatim>\<open>validate_data\<close>\<close>

text \<open>\<^verbatim>\<open>str(n)\<close> for an \<^verbatim>\<open>int\<close>: its decimal digits, with a minus sign when negative.\<close>

function nat_digits :: "nat \<Rightarrow> pystr" where
  "nat_digits n = (if n < 10 then [48 + n] else nat_digits (n div 10) @ [48 + n mod 10])"
  by pat_completeness auto
termination
  by (relation "measure (\<lambda>n. n)") auto

declare nat_digits.simps [simp del]

definition str_of_int :: "int \<Rightarrow> pystr" where
  "str_of_int n = (if n < 0 then 45 # nat_digits (nat (- n)) else nat_digits (nat n))"

subsection \<open>\<^verbatim>\<open>urllib.parse.urlparse\<close>\<close>

text \<open>
  The six components of \<^verbatim>\<open>urlparse\<close>, computed as the library does: tab, carriage
  return and line feed are dropped; a scheme is a prefix of scheme characters that starts
  with an ASCII letter and ends before the first colon; the network location follows
  \<^verbatim>\<open>//\<close> up to the first of \<^verbatim>\<open>/ ? #\<close>; then fragment, query and the parameters of
  the last path segment are split off. An unbalanced square bracket in the network
  location raises \<^verbatim>\<open>ValueError\<close>. The library's further checks of bracketed hosts and
  of non-ASCII hosts are not modelled.
\<close>

record parse_result =
  scheme :: pystr
  netloc :: pystr
  path :: pystr
  params :: pystr
  query :: pystr
  fragment :: pystr

definition is_ascii_alpha :: "nat \<Rightarrow> bool" where
  "is_ascii_alpha c \<longleftrightarrow> (65 \<le> c \<and> c \<le> 90) \<or> (97 \<le> c \<and> c \<le> 122)"

definition is_ascii_digit :: "nat \<Rightarrow> bool" where
  "is_ascii_digit c \<longleftrightarrow> 48 \<le> c \<and> c \<le> 57"

definition is_scheme_char :: "nat \<Rightarrow> bool" where
  "is_scheme_char c \<longleftrightarrow> is_ascii_alpha c \<or> is_ascii_digit c \<or> c = 43 \<or> c = 45 \<or> c = 46"

text \<open>\<open>split_at c s\<close>: the part of \<open>s\<close> before the first \<open>c\<close> and the part after it.\<close>

definition split_at :: "nat \<Rightarrow> pystr \<Rightarrow> pystr \<times> pystr" where
  "split_at c s = (takeWhile (\<lambda>x. x \<noteq> c) s, drop (Suc (length (takeWhile (\<lambda>x. x \<noteq> c) s))) s)"

definition split_scheme :: "pystr \<Rightarrow> pystr \<times> pystr" where
  "split_scheme url =
     (let pre = takeWhile (\<lambda>x. x \<noteq> 58) url
      in if 58 \<in> set url \<and> pre \<noteq> [] \<and> is_ascii_alpha (hd pre) \<and> list_all is_scheme_char pre
         then (py_lower pre, drop (Suc (length pre)) url)
         else ([], url))"

definition split_netloc :: "pystr \<Rightarrow> pystr \<times> pystr" where
  "split_netloc url =
     (if startswith url (asc ''//'')
      then (takeWhile (\<lambda>x. x \<noteq> 47 \<and> x \<noteq> 63 \<and> x \<noteq> 35) (drop 2 url),
            dropWhile (\<lambda>x. x \<noteq> 47 \<and> x \<noteq> 63 \<and> x \<noteq> 35) (drop 2 url))
      else ([], url))"

text \<open>
  \<^verbatim>\<open>_splitparams\<close>: the first semicolon after the last slash (the first semicolon when
  there is no slash) starts the parameters.
\<close>

definition split_params :: "pystr \<Rightarrow> pystr \<times> pystr" where
  "split_params url =
     (let last_seg = rev (takeWhile (\<lambda>x. x \<noteq> 47) (rev url));
          dir = take (length url - length last_seg) url
      in if 59 \<in> set last_seg
         then (dir @ fst (split_at 59 last_seg), snd (split_at 59 last_seg))
         else (url, []))"

definition urlparse :: "pystr \<Rightarrow> py_error + parse_result" where
  "urlparse url0 =
     (let url1 = filter (\<lambda>c. c \<noteq> 9 \<and> c \<noteq> 10 \<and> c \<noteq> 13) url0;
          (sch, url2) = split_scheme url1;
          (loc, url3) = split_netloc url2
      in if (91 \<in> set loc) \<noteq> (93 \<in> set loc) then Inl ValueError
         else
           let (url4, frag) = split_at 35 url3;
               (url5, qry) = split_at 63 url4;
               (pth, prm) =
                 (if sch \<in> {asc ''http'', asc ''https''} \<and> 59 \<in> set url5
                  then split_params url5 else (url5, []))
           in Inr \<lparr>scheme = sch, netloc = loc, path = pth, params = prm,
                    query = qry, fragment = frag\<rparr>)"

subsection \<open>The validator\<close>

text \<open>
  The kinds \<^verbatim>\<open>'string'\<close>, \<^verbatim>\<open>'int'\<close>, \<^verbatim>\<open>'url'\<close> and \<^verbatim>\<open>'username'\<close>, which are the ones
  the profile, relationship, link and tagged-user extraction pass; the \<^verbatim>\<open>'float'\<close> and
  \<^verbatim>\<open>'email'\<close> branches are not embedded.
\<close>

datatype kind = KString | KInt | KUrl | KUsername

text \<open>
  \<^verbatim>\<open>re.match(r'^[a-zA-Z0-9_.]+$', data)\<close>: a non-empty run of class characters that
  reaches the end of the string, or the line feed that ends it (\<^verbatim>\<open>$\<close> also matches there).
\<close>

definition is_username_char :: "nat \<Rightarrow> bool" where
  "is_username_char c \<longleftrightarrow> is_ascii_alpha c \<or> is_ascii_digit c \<or> c = 95 \<or> c = 46"

definition username_pattern :: "pystr \<Rightarrow> bool" where
  "username_pattern s \<longleftrightarrow>
     takeWhile is_username_char s \<noteq> [] \<and>
     (dropWhile is_username_char s = [] \<or> dropWhile is_username_char s = [10])"

text \<open>
  The \<^verbatim>\<open>'int'\<close> branch after the conversion: the \<^verbatim>\<open>min_value\<close> test comes first, then
  the \<^verbatim>\<open>max_value\<close> test.
\<close>

definition apply_bounds :: "int \<Rightarrow> int option \<Rightarrow> int option \<Rightarrow> int" where
  "apply_bounds n min_value max_value =
     (if min_value \<noteq> None \<and> n < the min_value then the min_value
      else if max_value \<noteq> None \<and> the max_value < n then the max_value
      else n)"

fun validate_data :: "pyval \<Rightarrow> kind \<Rightarrow> pyval \<Rightarrow> int option \<Rightarrow> int option \<Rightarrow> pyval" where
  "validate_data PNone k default_value min_value max_value = default_value"
| "validate_data (PStr s) KString default_value min_value max_value =
     (if py_strip s = [] then default_value else PStr (py_strip s))"
| "validate_data (PInt n) KString default_value min_value max_value =
     (if py_strip (str_of_int n) = [] then default_value else PStr (py_strip (str_of_int n)))"
| "validate_data (PStr s) KInt default_value min_value max_value =
     (case parse_count s of
        Inl e \<Rightarrow> default_value
      | Inr n \<Rightarrow> PInt (apply_bounds n min_value max_value))"
| "validate_data (PInt n) KInt default_value min_value max_value =
     PInt (apply_bounds n min_value max_value)"
| "validate_data (PStr s) KUrl default_value min_value max_value =
     (let data = py_strip s
      in if data = [] then default_value
         else if \<not> (startswith data (asc ''http://'') \<or> startswith data (asc ''https://''))
         then default_value
         else
           (case urlparse data of
              Inl e \<Rightarrow> default_value
            | Inr r \<Rightarrow> if scheme r \<noteq> [] \<and> netloc r \<noteq> [] then PStr data else default_value))"
| "validate_data (PInt n) KUrl default_value min_value max_value = default_value"
| "validate_data (PStr s) KUsername default_value min_value max_value =
     (let data = py_strip s
      in if data = [] then default_value
         else
           let data' = (if startswith data (asc ''@'') then drop 1 data else data)
           in if username_pattern data' then PStr data' else default_value)"
| "validate_data (PInt n) KUsername default_value min_value max_value = default_value"

section \<open>Rendering sessions\<close>

text \<open>
  \<^verbatim>\<open>setup_webdriver()\<close> starts a headless browser and \<^verbatim>\<open>driver.quit()\<close> ends it. The
  state threaded through the extraction operations counts both, so a session that was
  acquired and never released shows as \<open>closed < opened\<close>.
\<close>

record browser =
  opened :: nat
  closed :: nat

definition acquire :: "browser \<Rightarrow> browser" where
  "acquire b = b\<lparr>opened := Suc (opened b)\<rparr>"

definition release :: "browser \<Rightarrow> browser" where
  "release b = b\<lparr>closed := Suc (closed b)\<rparr>"

definition leaked :: "browser \<Rightarrow> nat" where
  "leaked b = opened b - closed b"

section \<open>ProfileExtractor: \<^verbatim>\<open>get_profile_info\<close>\<close>

text \<open>
  What the outside world answers during one call. \<open>ApiRaises\<close> covers every exception of
  the API attempt (the request after its retries, a non-2xx status, a body that is not
  JSON); \<open>ApiResponse status payload\<close> carries the value under \<^verbatim>\<open>'userInfo'\<close> when the
  key is present. A field is \<open>None\<close> when the payload lacks it.
\<close>

record user_info =
  ui_nickname :: "pystr option"
  ui_signature :: "pystr option"
  ui_followerCount :: "int option"
  ui_followingCount :: "int option"
  ui_heartCount :: "int option"
  ui_videoCount :: "int option"
  ui_verified :: "bool option"
  ui_privateAccount :: "bool option"

datatype api_outcome = ApiRaises | ApiResponse int "user_info option"

text \<open>
  The rendered profile page as the selectors see it: the text of the first element matched
  by the display-name and bio selectors (\<open>None\<close> when nothing matches), the texts of the
  elements matched by the statistics selectors and by the alternative ones, and whether a
  verification badge and a private-account indicator are matched.
\<close>

record profile_page =
  pp_display_name :: "pystr option"
  pp_bio :: "pystr option"
  pp_stats :: "pystr list"
  pp_stats_alt :: "pystr list"
  pp_verified :: bool
  pp_private :: bool

text \<open>
  \<open>pe_setup\<close>, \<open>pe_get\<close> and \<open>pe_quit\<close> hold the message of the exception that
  \<^verbatim>\<open>setup_webdriver()\<close>, \<^verbatim>\<open>driver.get(profile_url)\<close> and \<^verbatim>\<open>driver.quit()\<close> raise, if
  they raise; \<open>pe_page\<close> is \<open>None\<close> when the wait for the page or the reading of its
  source raises. \<open>pe_today\<close> and \<open>pe_now\<close> are the two formats of \<^verbatim>\<open>datetime.now()\<close>.
\<close>

record profile_env =
  pe_api :: api_outcome
  pe_setup :: "pystr option"
  pe_get :: "pystr option"
  pe_page :: "profile_page option"
  pe_quit :: "pystr option"
  pe_today :: pystr
  pe_now :: pystr

text \<open>
  The dictionary that is returned. The API branch sets neither \<^verbatim>\<open>'data_source'\<close> nor
  \<^verbatim>\<open>'extraction_timestamp'\<close>, and only the fallback sets \<^verbatim>\<open>'error'\<close>; the empty
  dictionary \<^verbatim>\<open>{}\<close> that \<^verbatim>\<open>profile_data\<close> starts as is \<open>None\<close> of
  \<open>profile_data option\<close>.
\<close>

record profile_data =
  username :: pyval
  display_name :: pyval
  bio :: pyval
  follower_count :: pyval
  following_count :: pyval
  likes :: pyval
  video_count :: pyval
  verified :: bool
  private_account :: bool
  join_date :: pystr
  data_source :: "pystr option"
  extraction_timestamp :: "pystr option"
  error :: "pystr option"

definition get_or :: "'a option \<Rightarrow> 'a \<Rightarrow> 'a" where
  "get_or x d = (case x of None \<Rightarrow> d | Some v \<Rightarrow> v)"

definition api_profile :: "profile_env \<Rightarrow> pyval \<Rightarrow> profile_data option" where
  "api_profile env user =
     (case pe_api env of
        ApiRaises \<Rightarrow> None
      | ApiResponse status payload \<Rightarrow>
          if status = 200 then
            (case payload of
               None \<Rightarrow> None
             | Some ui \<Rightarrow>
                 Some \<lparr>username = user,
                       display_name = (case ui_nickname ui of None \<Rightarrow> user | Some n \<Rightarrow> PStr n),
                       bio = PStr (get_or (ui_signature ui) []),
                       follower_count = PInt (get_or (ui_followerCount ui) 0),
                       following_count = PInt (get_or (ui_followingCount ui) 0),
                       likes = PInt (get_or (ui_heartCount ui) 0),
                       video_count = PInt (get_or (ui_videoCount ui) 0),
                       verified = get_or (ui_verified ui) False,
                       private_account = get_or (ui_privateAccount ui) False,
                       join_date = pe_today env,
                       data_source = None,
                       extraction_timestamp = None,
                       error = None\<rparr>)
          else None)"

subsection \<open>The statistics loop\<close>

record stats =
  st_follower :: int
  st_following :: int
  st_likes :: int
  st_video :: int

definition follower_keywords :: "pystr list" where
  "follower_keywords =
     [asc ''follower'', asc ''fans'', [1605, 1578, 1575, 1576, 1593],
      [1605, 1588, 1578, 1585, 1603]]"

definition following_keywords :: "pystr list" where
  "following_keywords =
     [asc ''following'', [1605, 1578, 1575, 1576, 1614, 1593], [1610, 1578, 1575, 1576, 1593]]"

definition like_keywords :: "pystr list" where
  "like_keywords = [asc ''like'', [1573, 1593, 1580, 1575, 1576]]"

definition video_keywords :: "pystr list" where
  "video_keywords = [asc ''video'', [1601, 1610, 1583, 1610, 1608]]"

definition has_keyword :: "pystr list \<Rightarrow> pystr \<Rightarrow> bool" where
  "has_keyword kws text = list_ex (\<lambda>k. py_in k (py_lower text)) kws"

text \<open>
  One iteration: \<open>text\<close> is \<^verbatim>\<open>stats_text[i]\<close> and \<open>v\<close> is \<^verbatim>\<open>stats_text[i+1]\<close>, or
  \<^verbatim>\<open>"0"\<close> at the end of the list. An exception of \<^verbatim>\<open>_parse_count\<close> is caught by the
  \<^verbatim>\<open>except Exception\<close> of the loop body, which leaves the counters as they were.
\<close>

definition stat_step :: "pystr \<Rightarrow> pystr \<Rightarrow> stats \<Rightarrow> stats" where
  "stat_step text v st =
     (if has_keyword follower_keywords text then
        (case parse_count v of
           Inl e \<Rightarrow> st
         | Inr n \<Rightarrow> st\<lparr>st_follower := (if 500000000 < n then 0 else n)\<rparr>)
      else if has_keyword following_keywords text then
        (case parse_count v of Inl e \<Rightarrow> st | Inr n \<Rightarrow> st\<lparr>st_following := n\<rparr>)
      else if has_keyword like_keywords text then
        (case parse_count v of Inl e \<Rightarrow> st | Inr n \<Rightarrow> st\<lparr>st_likes := n\<rparr>)
      else if has_keyword video_keywords text then
        (case parse_count v of Inl e \<Rightarrow> st | Inr n \<Rightarrow> st\<lparr>st_video := n\<rparr>)
      else st)"

fun stats_loop :: "pystr list \<Rightarrow> stats \<Rightarrow> stats" where
  "stats_loop [] st = st"
| "stats_loop (text # rest) st =
     stats_loop rest (stat_step text (case rest of [] \<Rightarrow> asc ''0'' | v # _ \<Rightarrow> v) st)"

definition stripped_texts :: "pystr list \<Rightarrow> pystr list" where
  "stripped_texts elems = filter (\<lambda>t. t \<noteq> []) (map py_strip elems)"

definition stats_text :: "profile_page \<Rightarrow> pystr list" where
  "stats_text pg =
     (if stripped_texts (pp_stats pg) = [] then stripped_texts (pp_stats_alt pg)
      else stripped_texts (pp_stats pg))"

subsection \<open>The three ways out\<close>

text \<open>
  The body of the inner \<^verbatim>\<open>try\<close> once the page is there. It returns the dictionary and
  the value that \<^verbatim>\<open>username\<close> is rebound to, which the fallback reads if
  \<^verbatim>\<open>driver.quit()\<close> raises afterwards.
\<close>

definition scrape_profile :: "profile_env \<Rightarrow> pyval \<Rightarrow> profile_page \<Rightarrow> profile_data \<times> pyval" where
  "scrape_profile env user pg =
     (let name0 = (case pp_display_name pg of
                     None \<Rightarrow> user
                   | Some t \<Rightarrow> if py_strip t \<noteq> [] then PStr (py_strip t) else user);
          bio0 = (case pp_bio pg of None \<Rightarrow> [] | Some t \<Rightarrow> py_strip t);
          st = stats_loop (stats_text pg)
                 \<lparr>st_follower = 0, st_following = 0, st_likes = 0, st_video = 0\<rparr>;
          user' = validate_data user KUsername (PStr (asc ''unknown'')) None None
      in (\<lparr>username = user',
            display_name = validate_data name0 KString user' None None,
            bio = validate_data (PStr bio0) KString (PStr []) None None,
            follower_count =
              validate_data (PInt (st_follower st)) KInt (PInt 0) (Some 0) (Some 1000000000),
            following_count =
              validate_data (PInt (st_following st)) KInt (PInt 0) (Some 0) (Some 10000),
            likes = validate_data (PInt (st_likes st)) KInt (PInt 0) (Some 0) (Some 10000000000),
            video_count = validate_data (PInt (st_video st)) KInt (PInt 0) (Some 0) (Some 10000),
            verified = pp_verified pg,
            private_account = pp_private pg,
            join_date = pe_today env,
            data_source = Some (asc ''web_scraping''),
            extraction_timestamp = Some (pe_now env),
            error = None\<rparr>, user'))"

text \<open>
  The handler of the outer \<^verbatim>\<open>try\<close>; \<open>msg\<close> is \<^verbatim>\<open>str(e)\<close>. The validated message is
  cut to 200 characters.
\<close>

definition error_summary :: "pystr \<Rightarrow> pystr" where
  "error_summary msg =
     (case validate_data (PStr msg) KString (PStr (asc ''Unknown error'')) None None of
        PStr t \<Rightarrow> take 200 t
      | _ \<Rightarrow> [])"

definition fallback_profile :: "profile_env \<Rightarrow> pyval \<Rightarrow> pystr \<Rightarrow> profile_data" where
  "fallback_profile env user msg =
     (let user' = validate_data user KUsername (PStr (asc ''unknown'')) None None
      in \<lparr>username = user',
           display_name = user',
           bio = PStr [],
           follower_count = PInt 0,
           following_count = PInt 0,
           likes = PInt 0,
           video_count = PInt 0,
           verified = False,
           private_account = False,
           join_date = pe_today env,
           data_source = Some (asc ''fallback''),
           extraction_timestamp = Some (pe_now env),
           error = Some (error_summary msg)\<rparr>)"

text \<open>
  \<^verbatim>\<open>get_profile_info\<close>. A successful API answer returns at once. Otherwise the session
  is started and the page requested, both outside the inner \<^verbatim>\<open>try\<close>, so an exception of
  either goes to the outer handler, which builds the fallback. An exception inside the
  inner \<^verbatim>\<open>try\<close> is only logged there, \<^verbatim>\<open>finally\<close> ends the session, and
  \<^verbatim>\<open>profile_data\<close> is returned as it then is.
\<close>

definition get_profile_info ::
  "profile_env \<Rightarrow> pyval \<Rightarrow> browser \<Rightarrow> profile_data option \<times> browser" where
  "get_profile_info env user b =
     (case api_profile env user of
        Some r \<Rightarrow> (Some r, b)
      | None \<Rightarrow>
          (case pe_setup env of
             Some msg \<Rightarrow> (Some (fallback_profile env user msg), b)
           | None \<Rightarrow>
               (case pe_get env of
                  Some msg \<Rightarrow> (Some (fallback_profile env user msg), acquire b)
                | None \<Rightarrow>
                    let scraped = map_option (scrape_profile env user) (pe_page env);
                        user1 = (case scraped of None \<Rightarrow> user | Some (r, u) \<Rightarrow> u)
                    in (case pe_quit env of
                          Some msg \<Rightarrow> (Some (fallback_profile env user1 msg), acquire b)
                        | None \<Rightarrow> (map_option fst scraped, release (acquire b))))))"

section \<open>RelationshipExtractor: \<^verbatim>\<open>get_user_followers\<close> and \<^verbatim>\<open>get_user_following\<close>\<close>

text \<open>
  One card of the opened list as its selectors see it: the text of the handle element and
  of the display-name element (\<open>None\<close> when absent) and the texts of the statistics spans.
\<close>

record relationship_item =
  ri_username :: "pystr option"
  ri_display_name :: "pystr option"
  ri_stats :: "pystr list"

record relationship_entry =
  re_username :: pystr
  re_display_name :: pystr
  re_follower_count :: int
  re_following_count :: int

text \<open>
  \<open>rl_setup_raises\<close>, \<open>rl_get_raises\<close>, \<open>rl_quit_raises\<close>: the three driver calls outside
  the inner \<^verbatim>\<open>try\<close>. \<open>rl_page_ready\<close>: the wait for the profile page returns.
  \<open>rl_link_found\<close>: a list-opening control was located (for the followers by one of the
  three selector strategies, whose own exceptions are caught one by one). \<open>rl_items\<close>:
  the cards read after the click, the wait for the list and the scrolling, or \<open>None\<close>
  when one of these raises. \<open>rl_profile\<close>: what the nested
  \<^verbatim>\<open>get_profile_info\<close> call meets.
\<close>

record relationship_env =
  rl_setup_raises :: bool
  rl_get_raises :: bool
  rl_page_ready :: bool
  rl_link_found :: bool
  rl_items :: "relationship_item list option"
  rl_profile :: profile_env
  rl_quit_raises :: bool

text \<open>\<^verbatim>\<open>stat_text.split()[0]\<close> for a text that holds a non-space character.\<close>

definition first_word :: "pystr \<Rightarrow> pystr" where
  "first_word t = takeWhile (\<lambda>c. \<not> is_space c) (dropWhile is_space t)"

text \<open>
  The loop over the statistics spans of one card. An exception of \<^verbatim>\<open>_parse_count\<close>
  leaves the loop and the card.
\<close>

fun item_stats :: "pystr list \<Rightarrow> int \<times> int \<Rightarrow> py_error + (int \<times> int)" where
  "item_stats [] acc = Inr acc"
| "item_stats (stat # rest) (fc, gc) =
     (let stat_text = py_lower (py_strip stat)
      in if py_in (asc ''follower'') stat_text then
           (case parse_count (first_word stat_text) of
              Inl e \<Rightarrow> Inl e
            | Inr n \<Rightarrow> item_stats rest (n, gc))
         else if py_in (asc ''following'') stat_text then
           (case parse_count (first_word stat_text) of
              Inl e \<Rightarrow> Inl e
            | Inr n \<Rightarrow> item_stats rest (fc, n))
         else item_stats rest (fc, gc))"

text \<open>One card: \<open>None\<close> when it adds nothing to the list.\<close>

definition parse_item :: "relationship_item \<Rightarrow> relationship_entry option" where
  "parse_item item =
     (let username_text =
            remove_char 64 (case ri_username item of None \<Rightarrow> [] | Some t \<Rightarrow> py_strip t);
          name = (case ri_display_name item of None \<Rightarrow> [] | Some t \<Rightarrow> py_strip t)
      in case item_stats (ri_stats item) (0, 0) of
           Inl e \<Rightarrow> None
         | Inr (fc, gc) \<Rightarrow>
             if username_text \<noteq> []
             then Some \<lparr>re_username = username_text,
                        re_display_name = (if name \<noteq> [] then name else username_text),
                        re_follower_count = fc,
                        re_following_count = gc\<rparr>
             else None)"

definition parse_items :: "relationship_item list \<Rightarrow> relationship_entry list" where
  "parse_items items = List.map_filter parse_item items"

text \<open>
  The body shared by the two operations, which differ in their selectors only. Without a
  control the profile is fetched once more for the log line; reading
  \<^verbatim>\<open>profile_data['follower_count']\<close> off an empty dictionary raises into the inner
  handler, with no effect on the list.
\<close>

definition relationship_scrape ::
  "relationship_env \<Rightarrow> pyval \<Rightarrow> browser \<Rightarrow> relationship_entry list \<times> browser" where
  "relationship_scrape env user b =
     (if rl_setup_raises env then ([], b)
      else if rl_get_raises env then ([], acquire b)
      else
        let (found, b1) =
              (if \<not> rl_page_ready env then ([], acquire b)
               else if rl_link_found env then
                 (case rl_items env of None \<Rightarrow> [] | Some items \<Rightarrow> parse_items items, acquire b)
               else ([], snd (get_profile_info (rl_profile env) user (acquire b))))
        in if rl_quit_raises env then (found, b1) else (found, release b1))"

definition get_user_followers ::
  "relationship_env \<Rightarrow> pyval \<Rightarrow> browser \<Rightarrow> relationship_entry list \<times> browser" where
  "get_user_followers env user b = relationship_scrape env user b"

definition get_user_following ::
  "relationship_env \<Rightarrow> pyval \<Rightarrow> browser \<Rightarrow> relationship_entry list \<times> browser" where
  "get_user_following env user b = relationship_scrape env user b"

section \<open>TaggedUserAggregator: \<^verbatim>\<open>get_tagged_users\<close>\<close>

text \<open>
  A search-result card as its selectors see it: the text of the author-handle element, of
  the author-name element and of the date element, \<open>None\<close> when the element is absent.
\<close>

record video_item =
  vi_author :: "pystr option"
  vi_nickname :: "pystr option"
  vi_date :: "pystr option"

record tagged_user =
  tu_username :: pystr
  tu_display_name :: pystr
  tu_post_count :: int
  tu_last_tagged :: pystr

text \<open>
  The update of \<^verbatim>\<open>existing_user\<close>, the first entry of the list with the handle: one more
  post, and the date replaced when the new one compares greater.
\<close>

fun bump :: "pystr \<Rightarrow> pystr \<Rightarrow> tagged_user list \<Rightarrow> tagged_user list" where
  "bump u d [] = []"
| "bump u d (e # es) =
     (if tu_username e = u
      then e\<lparr>tu_post_count := tu_post_count e + 1,
             tu_last_tagged := (if str_less (tu_last_tagged e) d then d else tu_last_tagged e)\<rparr> # es
      else e # bump u d es)"

definition record_sighting ::
  "tagged_user list \<Rightarrow> pystr \<Rightarrow> pystr \<Rightarrow> pystr \<Rightarrow> tagged_user list" where
  "record_sighting tagged u name d =
     (if list_ex (\<lambda>e. tu_username e = u) tagged then bump u d tagged
      else tagged @ [\<lparr>tu_username = u, tu_display_name = name, tu_post_count = 1,
                       tu_last_tagged = d\<rparr>])"

text \<open>One card of the mention search; \<open>today\<close> is the formatted current date.\<close>

definition search_item :: "pystr \<Rightarrow> pystr \<Rightarrow> tagged_user list \<Rightarrow> video_item \<Rightarrow> tagged_user list" where
  "search_item target today tagged item =
     (let tagger = remove_char 64 (case vi_author item of None \<Rightarrow> [] | Some t \<Rightarrow> py_strip t)
      in if py_lower tagger = py_lower target then tagged
         else record_sighting tagged tagger
                (case vi_nickname item of None \<Rightarrow> tagger | Some t \<Rightarrow> py_strip t)
                (case vi_date item of None \<Rightarrow> today | Some t \<Rightarrow> py_strip t))"

text \<open>
  One card of the hashtag search, which runs only when the mention search found nobody.
  The indentation of that part of the source is inconsistent (lines 1450 to 1580); the
  model follows its evident nesting: the fields of a card are the first selector results
  with non-blank text, a card without a handle is skipped, and the rest is as above.
\<close>

definition nonblank :: "pystr option \<Rightarrow> pystr option" where
  "nonblank x = (case x of None \<Rightarrow> None | Some t \<Rightarrow> if py_strip t \<noteq> [] then Some (py_strip t) else None)"

definition hashtag_item :: "pystr \<Rightarrow> pystr \<Rightarrow> tagged_user list \<Rightarrow> video_item \<Rightarrow> tagged_user list" where
  "hashtag_item target today tagged item =
     (let tagger = (case nonblank (vi_author item) of None \<Rightarrow> [] | Some t \<Rightarrow> remove_char 64 t)
      in if tagger = [] then tagged
         else if py_lower tagger = py_lower target then tagged
         else record_sighting tagged tagger
                (case nonblank (vi_nickname item) of None \<Rightarrow> tagger | Some t \<Rightarrow> t)
                (case nonblank (vi_date item) of None \<Rightarrow> today | Some t \<Rightarrow> t))"

text \<open>
  \<open>tg_results\<close>: the cards of the mention search, \<open>None\<close> when the wait, the scrolling or
  the reading of the page raises. \<open>tg_hashtag\<close>: the cards of the hashtag page, \<open>None\<close>
  when that part raises or reports no results.
\<close>

record tagged_env =
  tg_setup_raises :: bool
  tg_get_raises :: bool
  tg_results :: "video_item list option"
  tg_hashtag :: "video_item list option"
  tg_quit_raises :: bool
  tg_today :: pystr

definition collect_tagged :: "tagged_env \<Rightarrow> pystr \<Rightarrow> tagged_user list" where
  "collect_tagged env target =
     (case tg_results env of
        None \<Rightarrow> []
      | Some items \<Rightarrow>
          let tagged = foldl (search_item target (tg_today env)) [] items
          in if tagged = [] then
               (case tg_hashtag env of
                  None \<Rightarrow> []
                | Some items2 \<Rightarrow> foldl (hashtag_item target (tg_today env)) [] items2)
             else tagged)"

text \<open>
  \<^verbatim>\<open>tagged.sort(key=lambda x: x['post_count'], reverse=True)\<close> is a stable sort in
  descending order of the key.
\<close>

definition sort_by_post_count :: "tagged_user list \<Rightarrow> tagged_user list" where
  "sort_by_post_count tagged = sort_key (\<lambda>e. - tu_post_count e) tagged"

definition get_tagged_users ::
  "tagged_env \<Rightarrow> pystr \<Rightarrow> browser \<Rightarrow> tagged_user list \<times> browser" where
  "get_tagged_users env target b =
     (if tg_setup_raises env then ([], b)
      else if tg_get_raises env then ([], acquire b)
      else (sort_by_post_count (collect_tagged env target),
            if tg_quit_raises env then acquire b else release (acquire b)))"

section \<open>ContactInfoExtractor: \<^verbatim>\<open>extract_contact_info\<close>\<close>

text \<open>
  The two link categories of the bundle. Its e-mail addresses and telephone numbers, which
  come from regular-expression matches on free text and never meet the links, are not
  embedded.
\<close>

record contact_info =
  social_links :: "pystr list"
  websites :: "pystr list"

text \<open>\<^verbatim>\<open>f"{parsed_url.scheme}://{parsed_url.netloc}{parsed_url.path}"\<close>\<close>

definition base_url :: "parse_result \<Rightarrow> pystr" where
  "base_url r = scheme r @ asc ''://'' @ netloc r @ path r"

text \<open>
  \<^verbatim>\<open>[urlparse(x).netloc + urlparse(x).path for x in links]\<close>: the list the new base URL
  is looked up in. Its members carry no scheme.
\<close>

fun base_urls :: "pystr list \<Rightarrow> py_error + pystr list" where
  "base_urls [] = Inr []"
| "base_urls (x # xs) =
     (case urlparse x of
        Inl e \<Rightarrow> Inl e
      | Inr r \<Rightarrow>
          (case base_urls xs of
             Inl e \<Rightarrow> Inl e
           | Inr bs \<Rightarrow> Inr ((netloc r @ path r) # bs)))"

text \<open>
  The body of both link loops for one anchor, \<open>href\<close> being its attribute (\<open>None\<close> when
  it has none). An exception while normalising is caught and the anchor skipped.
\<close>

definition add_link :: "pystr list \<Rightarrow> pystr option \<Rightarrow> pystr list" where
  "add_link links href =
     (case validate_data (case href of None \<Rightarrow> PNone | Some h \<Rightarrow> PStr h) KUrl PNone None None of
        PStr validated_url \<Rightarrow>
          if validated_url \<noteq> [] \<and> validated_url \<notin> set links then
            (case urlparse validated_url of
               Inl e \<Rightarrow> links
             | Inr parsed_url \<Rightarrow>
                 (case base_urls links of
                    Inl e \<Rightarrow> links
                  | Inr bs \<Rightarrow>
                      if base_url parsed_url \<notin> set bs then links @ [validated_url] else links))
          else links
      | _ \<Rightarrow> links)"

definition social_names :: "pystr list" where
  "social_names =
     [asc ''tiktok'', asc ''instagram'', asc ''facebook'', asc ''twitter'', asc ''youtube'',
      asc ''linkedin'', asc ''snapchat'']"

definition names_social :: "pystr \<Rightarrow> bool" where
  "names_social url = list_ex (\<lambda>n. py_in n (py_lower url)) social_names"

definition add_website :: "pystr list \<Rightarrow> pystr option \<Rightarrow> pystr list" where
  "add_website links href =
     (case href of
        None \<Rightarrow> add_link links None
      | Some h \<Rightarrow> if h \<noteq> [] \<and> names_social h then links else add_link links (Some h))"

text \<open>A website matched in the bio, and one matched in a caption.\<close>

definition add_bio_url :: "pystr list \<Rightarrow> pystr \<Rightarrow> pystr list" where
  "add_bio_url links website =
     (case validate_data (PStr website) KUrl PNone None None of
        PStr v \<Rightarrow> if v \<noteq> [] \<and> v \<notin> set links then links @ [v] else links
      | _ \<Rightarrow> links)"

definition add_caption_url :: "pystr list \<Rightarrow> pystr \<Rightarrow> pystr list" where
  "add_caption_url links website =
     (case validate_data (PStr website) KUrl PNone None None of
        PStr v \<Rightarrow>
          if v \<noteq> [] \<and> v \<notin> set links then (if names_social v then links else links @ [v])
          else links
      | _ \<Rightarrow> links)"

text \<open>
  \<open>ce_page_ready\<close>: \<^verbatim>\<open>driver.get\<close>, the wait and the reading of the page, all inside the
  inner \<^verbatim>\<open>try\<close>, succeed. \<open>ce_not_found\<close>: the page shows an account-not-found message.
  \<open>ce_bio_urls\<close> and \<open>ce_caption_urls\<close>: the matches of the website pattern in the bio
  and in the non-blank captions, in order. \<open>ce_social_hrefs\<close> and \<open>ce_website_hrefs\<close>:
  the \<^verbatim>\<open>href\<close> attributes of the anchors matched by the social and by the website
  selectors, in selector order. \<open>ce_scroll_raises\<close>: the scrolling or the second reading
  of the page raises.
\<close>

record contact_env =
  ce_profile :: profile_env
  ce_setup_raises :: bool
  ce_page_ready :: bool
  ce_not_found :: bool
  ce_bio_urls :: "pystr list"
  ce_social_hrefs :: "pystr option list"
  ce_website_hrefs :: "pystr option list"
  ce_scroll_raises :: bool
  ce_caption_urls :: "pystr list"
  ce_quit_raises :: bool

text \<open>What the inner \<^verbatim>\<open>try\<close> leaves in the two lists; \<open>bio0\<close> is the bio of the profile.\<close>

definition scan_page :: "contact_env \<Rightarrow> pyval \<Rightarrow> contact_info" where
  "scan_page env bio0 =
     (if \<not> ce_page_ready env \<or> ce_not_found env then \<lparr>social_links = [], websites = []\<rparr>
      else
        let w1 = (if truthy (validate_data bio0 KString (PStr []) None None)
                  then foldl add_bio_url [] (ce_bio_urls env) else []);
            s = foldl add_link [] (ce_social_hrefs env);
            w2 = foldl add_website w1 (ce_website_hrefs env)
        in if ce_scroll_raises env then \<lparr>social_links = s, websites = w2\<rparr>
           else \<lparr>social_links = s, websites = foldl add_caption_url w2 (ce_caption_urls env)\<rparr>)"

text \<open>
  \<^verbatim>\<open>list(set(xs))\<close> keeps one copy of each string, in an order Python does not fix;
  \<open>remdups\<close> is one such list.
\<close>

definition extract_contact_info ::
  "contact_env \<Rightarrow> pyval \<Rightarrow> browser \<Rightarrow> contact_info \<times> browser" where
  "extract_contact_info env user b =
     (let user' = validate_data user KUsername (PStr (asc ''unknown'')) None None;
          (pd, b1) = get_profile_info (ce_profile env) user' b;
          bio0 = (case pd of None \<Rightarrow> PStr [] | Some r \<Rightarrow> bio r)
      in if ce_setup_raises env then (\<lparr>social_links = [], websites = []\<rparr>, b1)
         else
           let found = scan_page env bio0
           in if ce_quit_raises env \<or> (ce_page_ready env \<and> ce_not_found env)
              then (found, if ce_quit_raises env then acquire b1 else release (acquire b1))
              else (\<lparr>social_links = remdups (social_links found),
                     websites = remdups (websites found)\<rparr>, release (acquire b1)))"

section \<open>Reference statements and sample inputs\<close>

text \<open>
  The rule for the kind \<^verbatim>\<open>'username'\<close> in the words of the specification, applied to a
  string as it is: a leading \<^verbatim>\<open>@\<close> is dropped and the rest is returned when it is a
  non-empty run of \<^verbatim>\<open>[A-Za-z0-9_.]\<close>, otherwise the default.
\<close>

definition username_rule :: "pystr \<Rightarrow> pyval \<Rightarrow> pyval" where
  "username_rule s d =
     (let r = (if startswith s (asc ''@'') then drop 1 s else s)
      in if r \<noteq> [] \<and> list_all is_username_char r then PStr r else d)"



text \<open>Sample answers of the outside world.\<close>

definition no_sessions :: browser where
  "no_sessions = \<lparr>opened = 0, closed = 0\<rparr>"

definition sample_page :: profile_page where
  "sample_page =
     \<lparr>pp_display_name = Some (asc '' Jo ''), pp_bio = None,
      pp_stats = [asc ''Followers'', asc ''1.2K''], pp_stats_alt = [],
      pp_verified = False, pp_private = False\<rparr>"

text \<open>The API is down and the browser works.\<close>

definition scrape_env :: profile_env where
  "scrape_env =
     \<lparr>pe_api = ApiRaises, pe_setup = None, pe_get = None, pe_page = Some sample_page,
      pe_quit = None, pe_today = asc ''2024-03-01'', pe_now = asc ''2024-03-01 12:00:00''\<rparr>"


text \<open>\<^verbatim>\<open>driver.get\<close> raises after the session was started.\<close>

definition navigation_fails :: profile_env where
  "navigation_fails = scrape_env\<lparr>pe_get := Some (asc ''net::ERR_NAME_NOT_RESOLVED'')\<rparr>"

definition rel_env :: relationship_env where
  "rel_env =
     \<lparr>rl_setup_raises = False, rl_get_raises = False, rl_page_ready = True,
      rl_link_found = False, rl_items = None, rl_profile = scrape_env,
      rl_quit_raises = False\<rparr>"

text \<open>A list of two cards, the second without a handle element.\<close>

definition rel_two_cards :: relationship_env where
  "rel_two_cards =
     rel_env\<lparr>rl_link_found := True,
       rl_items := Some [\<lparr>ri_username = Some (asc ''@ann''), ri_display_name = None,
                           ri_stats = [asc ''12 Followers'']\<rparr>,
                         \<lparr>ri_username = None, ri_display_name = Some (asc ''Bob''),
                           ri_stats = []\<rparr>]\<rparr>"

definition tag_env :: tagged_env where
  "tag_env =
     \<lparr>tg_setup_raises = False, tg_get_raises = False, tg_results = Some [],
      tg_hashtag = None, tg_quit_raises = False, tg_today = asc ''2024-03-05''\<rparr>"

text \<open>Two anchors of the profile page that differ in their query strings only.\<close>

definition two_links_env :: contact_env where
  "two_links_env =
     \<lparr>ce_profile = scrape_env, ce_setup_raises = False, ce_page_ready = True,
      ce_not_found = False, ce_bio_urls = [],
      ce_social_hrefs = [Some (asc ''https://instagram.com/u?a=1''),
                         Some (asc ''https://instagram.com/u?a=2'')],
      ce_website_hrefs = [], ce_scroll_raises = False, ce_caption_urls = [],
      ce_quit_raises = False\<rparr>"

section \<open>Verified properties\<close>

subsection \<open>Evaluation of the count parser\<close>

lemmas count_eval =
  parse_count_def parse_count_body_def clean_count_def has_marker_def k_markers_def
  m_markers_def b_markers_def asc_def py_strip_def is_space_def replace_arabic_def
  arabic_to_english_def remove_char_def py_upper_def scaled_def unscaled_def
  numeric_part_def is_num_char_def is_digit_def digit_value_def decimal_zeros_def
  py_float_def digits_value_def round_double_def leading_exponent_def ge_pow2_def
  round_half_even_def nbits.simps Let_def

text \<open>
  Claim C7. \<^verbatim>\<open>_parse_count\<close> returns 1200 for \<^verbatim>\<open>"1.2K"\<close>, 3000000 for \<^verbatim>\<open>"3M"\<close>, 500 for
  the Arabic-Indic digits five, zero, zero, 0 for \<^verbatim>\<open>"bad"\<close> and 12345 for \<^verbatim>\<open>"12,345"\<close>.
\<close>

theorem parse_count_examples:
  "parse_count (asc ''1.2K'') = Inr 1200 \<and>
   parse_count (asc ''3M'') = Inr 3000000 \<and>
   parse_count [1637, 1632, 1632] = Inr 500 \<and>
   parse_count (asc ''bad'') = Inr 0 \<and>
   parse_count (asc ''12,345'') = Inr 12345"
proof -
  have a: "parse_count (asc ''1.2K'') = Inr 1200" by (simp add: count_eval)
  have b: "parse_count (asc ''3M'') = Inr 3000000" by (simp add: count_eval)
  have c: "parse_count [1637, 1632, 1632] = Inr 500" by (simp add: count_eval)
  have d: "parse_count (asc ''bad'') = Inr 0" by (simp add: count_eval)
  have e: "parse_count (asc ''12,345'') = Inr 12345" by (simp add: count_eval)
  from a b c d e show ?thesis by blast
qed

subsection \<open>The validator\<close>



lemma strip_last_not_space: "py_strip s \<noteq> [] \<Longrightarrow> \<not> is_space (last (py_strip s))"
proof -
  assume ne: "py_strip s \<noteq> []"
  define u where "u = dropWhile is_space (rev (dropWhile is_space s))"
  have su: "py_strip s = rev u" by (simp add: py_strip_def u_def)
  with ne have "u \<noteq> []" by simp
  then have "\<not> is_space (hd u)" unfolding u_def by (rule hd_dropWhile)
  moreover have "last (rev u) = hd u" using \<open>u \<noteq> []\<close> by (simp add: last_rev)
  ultimately show ?thesis by (simp add: su)
qed

lemma is_space_10: "is_space 10" by (simp add: is_space_def)

lemma username_pattern_iff:
  assumes "r \<noteq> [] \<longrightarrow> \<not> is_space (last r)"
  shows "username_pattern r \<longleftrightarrow> r \<noteq> [] \<and> list_all is_username_char r"
proof (cases "dropWhile is_username_char r = [10]")
  case True
  have "r = takeWhile is_username_char r @ dropWhile is_username_char r" by simp
  with True have r: "r = takeWhile is_username_char r @ [10]" by simp
  then have "r \<noteq> []" by auto
  moreover have "last r = 10" by (subst r) simp
  ultimately show ?thesis using assms is_space_10 by simp
next
  case False
  have a: "dropWhile is_username_char r = [] \<longleftrightarrow> list_all is_username_char r"
    by (simp add: dropWhile_eq_Nil_conv list_all_iff)
  have b: "list_all is_username_char r \<Longrightarrow> takeWhile is_username_char r = r"
    by (simp add: list_all_iff)
  show ?thesis
  proof
    assume "username_pattern r"
    with False a show "r \<noteq> [] \<and> list_all is_username_char r"
      by (auto simp: username_pattern_def)
  next
    assume h: "r \<noteq> [] \<and> list_all is_username_char r"
    then have "takeWhile is_username_char r = r" using b by blast
    moreover have "dropWhile is_username_char r = []" using h a by blast
    ultimately show "username_pattern r" unfolding username_pattern_def using h by metis
  qed
qed

lemma startswith_at: "startswith s (asc ''@'') \<longleftrightarrow> (s \<noteq> [] \<and> hd s = 64)"
  by (cases s) (auto simp: asc_def)

text \<open>
  Claim C8, as amended: the input of kind \<^verbatim>\<open>'username'\<close> is first trimmed of surrounding
  white space; then a leading \<^verbatim>\<open>@\<close> is dropped and the rest is returned when it matches
  \<^verbatim>\<open>[A-Za-z0-9_.]+\<close>, otherwise the default. \<^verbatim>\<open>"@John_Doe"\<close> gives \<^verbatim>\<open>"John_Doe"\<close> and
  \<^verbatim>\<open>"bad user!"\<close> gives the default.
\<close>

theorem validate_username_trimmed:
  "validate_data (PStr s) KUsername d lo hi = username_rule (py_strip s) d \<and>
   validate_data (PStr (asc ''@John_Doe'')) KUsername (PStr (asc ''unknown'')) None None
     = PStr (asc ''John_Doe'') \<and>
   validate_data (PStr (asc ''bad user!'')) KUsername (PStr (asc ''unknown'')) None None
     = PStr (asc ''unknown'')"
proof (intro conjI)
  define data where "data = py_strip s"
  define r where "r = (if startswith data (asc ''@'') then drop 1 data else data)"
  have "r \<noteq> [] \<longrightarrow> \<not> is_space (last r)"
  proof
    assume ne: "r \<noteq> []"
    then have dne: "data \<noteq> []" by (auto simp: r_def split: if_splits)
    have "last r = last data" using ne by (auto simp: r_def drop_Suc last_tl split: if_splits)
    with strip_last_not_space dne show "\<not> is_space (last r)" by (simp add: data_def)
  qed
  then have "username_pattern r \<longleftrightarrow> r \<noteq> [] \<and> list_all is_username_char r"
    by (rule username_pattern_iff)
  then show "validate_data (PStr s) KUsername d lo hi = username_rule (py_strip s) d"
    by (auto simp: username_rule_def Let_def data_def r_def)
next
  show "validate_data (PStr (asc ''@John_Doe'')) KUsername (PStr (asc ''unknown'')) None None
     = PStr (asc ''John_Doe'')"
    by (simp add: asc_def py_strip_def is_space_def username_pattern_def is_username_char_def
        is_ascii_alpha_def is_ascii_digit_def Let_def)
next
  show "validate_data (PStr (asc ''bad user!'')) KUsername (PStr (asc ''unknown'')) None None
     = PStr (asc ''unknown'')"
    by (simp add: asc_def py_strip_def is_space_def username_pattern_def is_username_char_def
        is_ascii_alpha_def is_ascii_digit_def Let_def)
qed

theorem validate_username_trimmed_witness:
  "validate_data (PStr (asc '' @a.b_9 '')) KUsername PNone None None = PStr (asc ''a.b_9'')"
  using validate_username_trimmed [of "asc '' @a.b_9 ''" PNone None None]
  by (simp add: username_rule_def asc_def py_strip_def is_space_def is_username_char_def
        is_ascii_alpha_def is_ascii_digit_def Let_def)

text \<open>
  The rule without the trimming fails on \<^verbatim>\<open>"John "\<close>: the remainder does not match the
  class, yet the validator returns \<^verbatim>\<open>"John"\<close> and not the default.
\<close>

theorem validate_username_untrimmed_counterexample:
  "validate_data (PStr (asc ''John '')) KUsername (PStr (asc ''unknown'')) None None
     = PStr (asc ''John'') \<and>
   username_rule (asc ''John '') (PStr (asc ''unknown'')) = PStr (asc ''unknown'')"
  by (simp add: username_rule_def asc_def py_strip_def is_space_def username_pattern_def
        is_username_char_def is_ascii_alpha_def is_ascii_digit_def Let_def)

subsection \<open>Profile extraction\<close>









subsection \<open>Relationship extraction\<close>

lemma parse_item_handle: "parse_item item = Some e \<Longrightarrow> re_username e \<noteq> []"
  by (auto simp: parse_item_def Let_def split: sum.splits prod.splits if_splits)

lemma parse_items_handles: "e \<in> set (parse_items items) \<Longrightarrow> re_username e \<noteq> []"
  by (auto simp: parse_items_def List.map_filter_def dest: parse_item_handle)

lemma relationship_scrape_handles:
  "e \<in> set (fst (relationship_scrape env user b)) \<Longrightarrow> re_username e \<noteq> []"
  by (auto simp: relationship_scrape_def Let_def split: if_splits option.splits prod.splits
      dest: parse_items_handles)

lemma relationship_scrape_no_link:
  "\<not> rl_link_found env \<Longrightarrow> fst (relationship_scrape env user b) = []"
  by (auto simp: relationship_scrape_def Let_def split: if_splits prod.splits)

text \<open>
  Claim C5. When the list-opening control is not located, both operations return the empty
  list, and no entry of a returned list has an empty handle.
\<close>

theorem relationship_lists:
  "(\<not> rl_link_found env \<longrightarrow>
      fst (get_user_followers env user b) = [] \<and> fst (get_user_following env user b) = []) \<and>
   (\<forall>e \<in> set (fst (get_user_followers env user b)). re_username e \<noteq> []) \<and>
   (\<forall>e \<in> set (fst (get_user_following env user b)). re_username e \<noteq> [])"
  by (simp add: get_user_followers_def get_user_following_def relationship_scrape_no_link
      relationship_scrape_handles)

lemma two_cards_followers:
  "fst (get_user_followers rel_two_cards (PStr (asc ''jo'')) no_sessions) =
     [\<lparr>re_username = asc ''ann'', re_display_name = asc ''ann'', re_follower_count = 12,
       re_following_count = 0\<rparr>]"
  by (simp add: get_user_followers_def relationship_scrape_def rel_two_cards_def rel_env_def
      parse_items_def List.map_filter_simps parse_item_def first_word_def lower_char_def
      py_lower_def count_eval)

theorem relationship_lists_witness:
  "rl_link_found rel_env = False \<and>
   fst (get_user_followers rel_env (PStr (asc ''jo'')) no_sessions) = [] \<and>
   fst (get_user_following rel_env (PStr (asc ''jo'')) no_sessions) = [] \<and>
   map re_username (fst (get_user_followers rel_two_cards (PStr (asc ''jo'')) no_sessions))
     = [asc ''ann''] \<and>
   re_username (hd (fst (get_user_followers rel_two_cards (PStr (asc ''jo'')) no_sessions)))
     \<noteq> []"
  using relationship_lists [of rel_env "PStr (asc ''jo'')" no_sessions]
    relationship_lists [of rel_two_cards "PStr (asc ''jo'')" no_sessions]
    two_cards_followers
  by (simp add: rel_env_def)

subsection \<open>Release of the rendering session\<close>

text \<open>
  Claim C6 fails where \<^verbatim>\<open>driver.get\<close> raises: the call sits between
  \<^verbatim>\<open>setup_webdriver()\<close> and the \<^verbatim>\<open>try\<close> whose \<^verbatim>\<open>finally\<close> quits the driver, in four of the
  five operations, and the session stays open.
\<close>

theorem session_left_open:
  "leaked (snd (get_profile_info navigation_fails (PStr (asc ''jo'')) no_sessions)) = 1 \<and>
   leaked (snd (get_user_followers (rel_env\<lparr>rl_get_raises := True\<rparr>) (PStr (asc ''jo''))
                  no_sessions)) = 1 \<and>
   leaked (snd (get_user_following (rel_env\<lparr>rl_get_raises := True\<rparr>) (PStr (asc ''jo''))
                  no_sessions)) = 1 \<and>
   leaked (snd (get_tagged_users (tag_env\<lparr>tg_get_raises := True\<rparr>) (asc ''jo'')
                  no_sessions)) = 1"
  by (simp add: get_profile_info_def navigation_fails_def scrape_env_def api_profile_def
      get_user_followers_def get_user_following_def relationship_scrape_def rel_env_def
      get_tagged_users_def tag_env_def leaked_def acquire_def no_sessions_def)

subsection \<open>Links of the contact bundle\<close>

lemmas url_eval =
  validate_data.simps urlparse_def split_scheme_def split_netloc_def split_at_def
  split_params_def is_ascii_alpha_def is_ascii_digit_def is_scheme_char_def py_lower_def
  lower_char_def asc_def py_strip_def is_space_def base_url_def Let_def

lemma link_a: "add_link [] (Some (asc ''https://instagram.com/u?a=1''))
                 = [asc ''https://instagram.com/u?a=1'']"
  by (simp add: add_link_def url_eval)

lemma link_b: "add_link [asc ''https://instagram.com/u?a=1''] (Some (asc ''https://instagram.com/u?a=2''))
                 = [asc ''https://instagram.com/u?a=1'', asc ''https://instagram.com/u?a=2'']"
  by (simp add: add_link_def url_eval)

text \<open>
  Claim C3 fails on two anchors that differ in the query string: the base URL of the new
  link carries its scheme, the list it is looked up in does not, so the lookup never finds
  it and both links stay in the bundle.
\<close>

theorem query_variants_both_kept:
  "social_links (fst (extract_contact_info two_links_env (PStr (asc ''jo'')) no_sessions))
     = [asc ''https://instagram.com/u?a=1'', asc ''https://instagram.com/u?a=2''] \<and>
   map_sum id base_url (urlparse (asc ''https://instagram.com/u?a=1''))
     = Inr (asc ''https://instagram.com/u'') \<and>
   map_sum id base_url (urlparse (asc ''https://instagram.com/u?a=2''))
     = Inr (asc ''https://instagram.com/u'')"
proof (intro conjI)
  have "social_links (scan_page two_links_env bio0)
          = [asc ''https://instagram.com/u?a=1'', asc ''https://instagram.com/u?a=2'']" for bio0
    using link_a link_b by (simp add: scan_page_def two_links_env_def Let_def)
  moreover have "asc ''https://instagram.com/u?a=1'' \<noteq> asc ''https://instagram.com/u?a=2''"
    by (simp add: asc_def)
  ultimately show "social_links (fst (extract_contact_info two_links_env (PStr (asc ''jo'')) no_sessions))
     = [asc ''https://instagram.com/u?a=1'', asc ''https://instagram.com/u?a=2'']"
    by (simp add: extract_contact_info_def Let_def two_links_env_def split: prod.splits)
next
  show "map_sum id base_url (urlparse (asc ''https://instagram.com/u?a=1''))
     = Inr (asc ''https://instagram.com/u'')"
    by (simp add: url_eval)
next
  show "map_sum id base_url (urlparse (asc ''https://instagram.com/u?a=2''))
     = Inr (asc ''https://instagram.com/u'')"
    by (simp add: url_eval)
qed

end
